theory Spec2Isabelle
  imports Complex_Main
begin

section \<open>JavaScript numbers, idealised over exact arithmetic\<close>

text \<open>
  A JavaScript number is modelled as a rational, or one of the three special values.
  Rounding and the negative zero are not modelled: where the IEEE result is exact, the
  model agrees with it.
\<close>

datatype jsnum = Fin rat | PosInf | NegInf | NaN

fun js_neg :: "jsnum \<Rightarrow> jsnum" where
  "js_neg (Fin a) = Fin (- a)"
| "js_neg PosInf = NegInf"
| "js_neg NegInf = PosInf"
| "js_neg NaN = NaN"

fun js_add :: "jsnum \<Rightarrow> jsnum \<Rightarrow> jsnum" where
  "js_add NaN _ = NaN"
| "js_add _ NaN = NaN"
| "js_add (Fin a) (Fin b) = Fin (a + b)"
| "js_add PosInf NegInf = NaN"
| "js_add NegInf PosInf = NaN"
| "js_add PosInf _ = PosInf"
| "js_add NegInf _ = NegInf"
| "js_add (Fin a) b = b"

definition js_sub :: "jsnum \<Rightarrow> jsnum \<Rightarrow> jsnum" where
  "js_sub a b = js_add a (js_neg b)"

definition sign_inf :: "bool \<Rightarrow> jsnum" where
  "sign_inf negative = (if negative then NegInf else PosInf)"

fun js_mul :: "jsnum \<Rightarrow> jsnum \<Rightarrow> jsnum" where
  "js_mul NaN _ = NaN"
| "js_mul _ NaN = NaN"
| "js_mul (Fin a) (Fin b) = Fin (a * b)"
| "js_mul (Fin a) PosInf = (if a = 0 then NaN else sign_inf (a < 0))"
| "js_mul (Fin a) NegInf = (if a = 0 then NaN else sign_inf (0 < a))"
| "js_mul PosInf (Fin b) = (if b = 0 then NaN else sign_inf (b < 0))"
| "js_mul NegInf (Fin b) = (if b = 0 then NaN else sign_inf (0 < b))"
| "js_mul PosInf PosInf = PosInf"
| "js_mul NegInf NegInf = PosInf"
| "js_mul PosInf NegInf = NegInf"
| "js_mul NegInf PosInf = NegInf"

fun js_div :: "jsnum \<Rightarrow> jsnum \<Rightarrow> jsnum" where
  "js_div NaN _ = NaN"
| "js_div _ NaN = NaN"
| "js_div (Fin a) (Fin b) =
     (if b = 0 then (if a = 0 then NaN else sign_inf (a < 0)) else Fin (a / b))"
| "js_div (Fin a) _ = Fin 0"
| "js_div PosInf (Fin b) = sign_inf (b < 0)"
| "js_div NegInf (Fin b) = sign_inf (0 \<le> b)"
| "js_div _ _ = NaN"

text \<open>\<^verbatim>\<open>Math.min\<close> and \<^verbatim>\<open>Math.max\<close> of two numbers: NaN if either is NaN.\<close>

fun js_min :: "jsnum \<Rightarrow> jsnum \<Rightarrow> jsnum" where
  "js_min NaN _ = NaN"
| "js_min _ NaN = NaN"
| "js_min NegInf _ = NegInf"
| "js_min _ NegInf = NegInf"
| "js_min PosInf b = b"
| "js_min a PosInf = a"
| "js_min (Fin a) (Fin b) = Fin (min a b)"

fun js_max :: "jsnum \<Rightarrow> jsnum \<Rightarrow> jsnum" where
  "js_max NaN _ = NaN"
| "js_max _ NaN = NaN"
| "js_max PosInf _ = PosInf"
| "js_max _ PosInf = PosInf"
| "js_max NegInf b = b"
| "js_max a NegInf = a"
| "js_max (Fin a) (Fin b) = Fin (max a b)"

section \<open>Number tokens of a path string\<close>

text \<open>
  The pattern of \<^verbatim>\<open>#scaleDString\<close> is \<^verbatim>\<open>/(-?\d*\.?\d+)/g\<close>: four single-character
  classes, each under a greedy quantifier. The matcher below is the backtracking
  matcher of the regular-expression engine for such a sequence: a quantifier takes as
  much as it can first and gives back on failure. It returns the length of the match
  that starts at the head of the string.
\<close>

datatype cls = Minus | Digit | Dot

datatype quant = Opt | Star | Plus

definition is_digit :: "char \<Rightarrow> bool" where
  "is_digit c = (c \<in> set ''0123456789'')"

fun in_cls :: "cls \<Rightarrow> char \<Rightarrow> bool" where
  "in_cls Minus c = (c = CHR ''-'')"
| "in_cls Digit c = is_digit c"
| "in_cls Dot c = (c = CHR ''.'')"

fun bt :: "(cls \<times> quant) list \<Rightarrow> string \<Rightarrow> nat option" where
  "bt [] s = Some 0"
| "bt ((c, Opt) # rest) [] = bt rest []"
| "bt ((c, Opt) # rest) (a # s) =
     (if in_cls c a
      then (case bt rest s of Some n \<Rightarrow> Some (Suc n) | None \<Rightarrow> bt rest (a # s))
      else bt rest (a # s))"
| "bt ((c, Star) # rest) [] = bt rest []"
| "bt ((c, Star) # rest) (a # s) =
     (if in_cls c a
      then (case bt ((c, Star) # rest) s of Some n \<Rightarrow> Some (Suc n)
            | None \<Rightarrow> bt rest (a # s))
      else bt rest (a # s))"
| "bt ((c, Plus) # rest) [] = None"
| "bt ((c, Plus) # rest) (a # s) =
     (if in_cls c a then map_option Suc (bt ((c, Star) # rest) s) else None)"

definition num_re :: "(cls \<times> quant) list" where
  "num_re = [(Minus, Opt), (Digit, Star), (Dot, Opt), (Digit, Plus)]"

text \<open>
  \<^verbatim>\<open>parseFloat\<close> on a token of the pattern: an optional sign, digits, and an optional
  fraction. A string with no digit at all is NaN. (Exponents, a leading plus sign and
  white space never occur in a token the pattern matches.)
\<close>

definition digit_val :: "char \<Rightarrow> nat" where
  "digit_val c = length (takeWhile (\<lambda>d. d \<noteq> c) ''0123456789'')"

fun digits_val :: "nat \<Rightarrow> string \<Rightarrow> nat" where
  "digits_val acc [] = acc"
| "digits_val acc (c # cs) = digits_val (10 * acc + digit_val c) cs"

definition parse_unsigned :: "string \<Rightarrow> jsnum" where
  "parse_unsigned s =
     (let ip = takeWhile is_digit s;
          r = dropWhile is_digit s;
          fp = (case r of [] \<Rightarrow> [] | c # r' \<Rightarrow> if c = CHR ''.'' then takeWhile is_digit r' else [])
      in if ip = [] \<and> fp = [] then NaN
         else Fin (of_nat (digits_val 0 ip) + of_nat (digits_val 0 fp) / 10 ^ length fp))"

definition parseFloat :: "string \<Rightarrow> jsnum" where
  "parseFloat s =
     (case s of
        [] \<Rightarrow> NaN
      | c # r \<Rightarrow> if c = CHR ''-'' then js_neg (parse_unsigned r) else parse_unsigned s)"

text \<open>
  \<^verbatim>\<open>String(n)\<close>: the decimal digits of the integer part, then the fraction digits when
  there are any (at most twenty of them here: the exponent forms of very large and very
  small numbers are not modelled).
\<close>

definition digit_char :: "nat \<Rightarrow> char" where
  "digit_char d = ''0123456789'' ! (d mod 10)"

fun nat_digits :: "nat \<Rightarrow> string" where
  "nat_digits n = (if n < 10 then [digit_char n] else nat_digits (n div 10) @ [digit_char n])"

fun frac_digits :: "nat \<Rightarrow> rat \<Rightarrow> string" where
  "frac_digits 0 f = []"
| "frac_digits (Suc k) f =
     (if f = 0 then []
      else digit_char (nat \<lfloor>f * 10\<rfloor>) # frac_digits k (f * 10 - of_int \<lfloor>f * 10\<rfloor>))"

fun js_String :: "jsnum \<Rightarrow> string" where
  "js_String NaN = ''NaN''"
| "js_String PosInf = ''Infinity''"
| "js_String NegInf = ''-Infinity''"
| "js_String (Fin q) =
     (let a = \<bar>q\<bar>; f = a - of_int \<lfloor>a\<rfloor>
      in (if q < 0 then ''-'' else '''') @ nat_digits (nat \<lfloor>a\<rfloor>)
         @ (if f = 0 then '''' else CHR ''.'' # frac_digits 20 f))"

text \<open>
  \<^verbatim>\<open>d.replace(re, cb)\<close> with a global pattern: at each position the pattern is tried;
  a match is replaced by the callback's result and the scan goes on after it, and a
  character where no match starts is copied.
\<close>

function replace_num :: "(string \<Rightarrow> string) \<Rightarrow> string \<Rightarrow> string" where
  "replace_num cb [] = []"
| "replace_num cb (a # s) =
     (case bt num_re (a # s) of
        None \<Rightarrow> a # replace_num cb s
      | Some n \<Rightarrow>
          if n = 0 then cb [] @ a # replace_num cb s
          else cb (take n (a # s)) @ replace_num cb (drop n (a # s)))"
  by pat_completeness auto
termination
  by (relation "measure (\<lambda>(cb, s). length s)") auto

definition scaleDString :: "string \<Rightarrow> jsnum \<Rightarrow> string" where
  "scaleDString d scale = replace_num (\<lambda>num. js_String (js_mul (parseFloat num) scale)) d"

section \<open>Data model\<close>

record vec =
  vx :: jsnum
  vy :: jsnum

text \<open>
  An entry of \<^verbatim>\<open>shapeCache\<close>. Its \<^verbatim>\<open>hull\<close> field is \<open>hullVerts\<close> here, and the \<^verbatim>\<open>Path2D\<close>
  object is kept as the string it was built from.
\<close>

record shape =
  hullVerts :: "vec list"
  centroid :: vec
  path2d :: string
  fill :: string

text \<open>A \<^verbatim>\<open>path\<close> element: \<^verbatim>\<open>getAttribute\<close> gives \<^verbatim>\<open>null\<close> (here \<open>None\<close>) for an absent attribute.\<close>

record pathEl =
  attr_d :: "string option"
  attr_fill :: "string option"

text \<open>
  A DOM element, as far as the code reads it: the client box of the container and the
  \<^verbatim>\<open>path\<close> descendants of the SVG root, in document order.
\<close>

record element =
  clientWidth :: int
  clientHeight :: int
  paths :: "pathEl list"

type_synonym document = "string \<Rightarrow> element option"

record debug_cfg =
  devMode :: bool
  showBoundingBoxes :: bool

record physics_cfg =
  restitution :: jsnum
  friction :: jsnum
  vertexLimit :: jsnum
  simplifyTolerance :: jsnum
  minimumArea :: jsnum
  positionIterations :: jsnum
  velocityIterations :: jsnum

record outline_cfg =
  stroke :: string
  strokeWidth :: jsnum

record config =
  scale :: jsnum
  debug :: debug_cfg
  physics :: physics_cfg
  stiffness :: jsnum
  outline :: outline_cfg

definition defaultConfig :: config where
  "defaultConfig =
     \<lparr>scale = Fin (13 / 10),
      debug = \<lparr>devMode = False, showBoundingBoxes = False\<rparr>,
      physics = \<lparr>restitution = Fin (7 / 10), friction = Fin 0, vertexLimit = Fin 14,
                 simplifyTolerance = Fin (2 / 100), minimumArea = Fin 5,
                 positionIterations = Fin 3, velocityIterations = Fin 2\<rparr>,
      stiffness = Fin (1 / 10),
      outline = \<lparr>stroke = ''transparent'', strokeWidth = Fin 0\<rparr>\<rparr>"

text \<open>
  The caller's overrides: every key of the configuration may be present or absent.
  \<^verbatim>\<open>deepMerge\<close> copies the target and lets every key that the source has win, going
  into nested objects; on the configuration's keys that is one choice per leaf.
\<close>

record custom =
  c_scale :: "jsnum option"
  c_devMode :: "bool option"
  c_showBoundingBoxes :: "bool option"
  c_restitution :: "jsnum option"
  c_friction :: "jsnum option"
  c_vertexLimit :: "jsnum option"
  c_simplifyTolerance :: "jsnum option"
  c_minimumArea :: "jsnum option"
  c_positionIterations :: "jsnum option"
  c_velocityIterations :: "jsnum option"
  c_stiffness :: "jsnum option"
  c_stroke :: "string option"
  c_strokeWidth :: "jsnum option"

definition pick :: "'a \<Rightarrow> 'a option \<Rightarrow> 'a" where
  "pick t s = (case s of None \<Rightarrow> t | Some v \<Rightarrow> v)"

definition deepMerge :: "config \<Rightarrow> custom \<Rightarrow> config" where
  "deepMerge t c =
     \<lparr>scale = pick (scale t) (c_scale c),
      debug = \<lparr>devMode = pick (devMode (debug t)) (c_devMode c),
               showBoundingBoxes = pick (showBoundingBoxes (debug t)) (c_showBoundingBoxes c)\<rparr>,
      physics = \<lparr>restitution = pick (restitution (physics t)) (c_restitution c),
                 friction = pick (friction (physics t)) (c_friction c),
                 vertexLimit = pick (vertexLimit (physics t)) (c_vertexLimit c),
                 simplifyTolerance = pick (simplifyTolerance (physics t)) (c_simplifyTolerance c),
                 minimumArea = pick (minimumArea (physics t)) (c_minimumArea c),
                 positionIterations = pick (positionIterations (physics t)) (c_positionIterations c),
                 velocityIterations = pick (velocityIterations (physics t)) (c_velocityIterations c)\<rparr>,
      stiffness = pick (stiffness t) (c_stiffness c),
      outline = \<lparr>stroke = pick (stroke (outline t)) (c_stroke c),
                 strokeWidth = pick (strokeWidth (outline t)) (c_strokeWidth c)\<rparr>\<rparr>"

subsection \<open>The physics library's objects\<close>

text \<open>
  A Matter body, as far as this program touches it. Bodies are objects shared between
  the instance's lists and the engine's world, so they live in a store and are named by
  their address there.
\<close>

record mbody =
  position :: vec
  velocity :: vec
  angle :: jsnum
  isStatic :: bool
  vertices :: "vec list"

type_synonym addr = nat

text \<open>The mouse constraint that \<^verbatim>\<open>#setupMouseConstraint\<close> builds.\<close>

record mconstraint =
  mc_stiffness :: jsnum
  mc_visible :: bool
  mc_pixelRatio :: jsnum

record engine =
  world_bodies :: "addr list"
  world_constraints :: "mconstraint list"
  eng_positionIterations :: jsnum
  eng_velocityIterations :: jsnum

text \<open>The runner: whether its frame loop is stepping the engine.\<close>

record runner =
  running :: bool

text \<open>
  The p5 instance: whether its frame loop calls \<^verbatim>\<open>draw\<close>, whether its window listeners
  (among them the one that calls \<^verbatim>\<open>windowResized\<close>) are bound, whether it has created a
  canvas, and the canvas size.
\<close>

record p5inst =
  looping :: bool
  events_bound :: bool
  has_canvas :: bool
  width :: jsnum
  height :: jsnum
  pixelDensity :: jsnum

text \<open>
  What a call can throw: the constructor's own error, a \<^verbatim>\<open>TypeError\<close> of the language
  (a property of \<^verbatim>\<open>null\<close> or \<^verbatim>\<open>undefined\<close>), or an error from inside the library.
\<close>

datatype error = InvalidContainerSelector | TypeError | LibraryError

text \<open>
  The library functions whose results the program only passes on. They are parameters
  of the model: \<^verbatim>\<open>Matter.Svg.pathToVertices\<close> (on the path element and the sample length),
  \<^verbatim>\<open>Matter.Vertices.hull\<close>, \<^verbatim>\<open>Matter.Vertices.centre\<close>, and \<^verbatim>\<open>Matter.Bodies.fromVertices\<close>
  (position, vertex sets, restitution, friction, the flag, the tolerance and the minimum
  area). A call of \<^verbatim>\<open>Bodies.fromVertices\<close> has three outcomes: it throws (\<open>Inl\<close>), it
  returns no body (\<open>Inr None\<close>), or it returns a body.
\<close>

record matter =
  pathToVertices :: "pathEl \<Rightarrow> jsnum \<Rightarrow> vec list"
  hull_of :: "vec list \<Rightarrow> vec list"
  centre_of :: "vec list \<Rightarrow> vec"
  fromVertices ::
    "jsnum \<Rightarrow> jsnum \<Rightarrow> vec list list \<Rightarrow> jsnum \<Rightarrow> jsnum \<Rightarrow> bool \<Rightarrow> jsnum \<Rightarrow> jsnum
       \<Rightarrow> error + mbody option"

subsection \<open>The instance and its host\<close>

datatype handler = DebugToggle

text \<open>
  What outlives a call: the store of Matter bodies, the \<^verbatim>\<open>keydown\<close> listeners of the
  window, the display's pixel ratio, and the timer of \<^verbatim>\<open>debounce\<close>: whether a timeout that
  the debounced resize handler has set is still pending.
\<close>

record host =
  heap :: "mbody list"
  keydown :: "handler list"
  devicePixelRatio :: jsnum
  resizeTimeout :: bool

text \<open>
  The fields of \<^verbatim>\<open>this\<close>. A field that is not assigned yet is \<open>None\<close>; the three lists
  are empty until the constructor assigns them. An entry of \<^verbatim>\<open>bodies\<close> is
  \<^verbatim>\<open>{ body, ...shape }\<close>: the body's address with the fields of its shape.
\<close>

record inst =
  config :: config
  container :: "element option"
  svgSel :: string
  shapeCache :: "shape list"
  bodies :: "(addr \<times> shape) list"
  walls :: "addr list"
  engine :: "engine option"
  runner :: "runner option"
  p5 :: "p5inst option"

datatype jsval = This | Undefined

definition blank :: "config \<Rightarrow> inst" where
  "blank c = \<lparr>config = c, container = None, svgSel = [], shapeCache = [], bodies = [],
              walls = [], engine = None, runner = None, p5 = None\<rparr>"

section \<open>Building the shape cache\<close>

text \<open>\<^verbatim>\<open>a || b\<close> on an attribute value: \<^verbatim>\<open>null\<close> and the empty string are falsy.\<close>

definition or_else :: "string option \<Rightarrow> string \<Rightarrow> string" where
  "or_else a b = (case a of None \<Rightarrow> b | Some v \<Rightarrow> if v = [] then b else v)"

text \<open>
  The body of the loop of \<^verbatim>\<open>#initShapeCache\<close>. With no \<^verbatim>\<open>d\<close> attribute, \<^verbatim>\<open>rawD\<close> is
  \<^verbatim>\<open>null\<close> and \<^verbatim>\<open>rawD.replace\<close> throws. The vertices that the library returns are points,
  not arrays, so \<^verbatim>\<open>flat\<close> is \<^verbatim>\<open>rawVerts\<close>.
\<close>

definition cacheShape :: "matter \<Rightarrow> jsnum \<Rightarrow> jsnum \<Rightarrow> pathEl \<Rightarrow> error + shape" where
  "cacheShape m vlimit sc pathEl =
     (case attr_d pathEl of
        None \<Rightarrow> Inl TypeError
      | Some rawD \<Rightarrow>
          let newD = scaleDString rawD sc;
              tmp = pathEl\<lparr>attr_d := Some newD\<rparr>;
              rawVerts = pathToVertices m tmp vlimit;
              hl = hull_of m rawVerts;
              ct = centre_of m hl;
              fl = or_else (attr_fill pathEl) ''#3498db''
          in Inr \<lparr>hullVerts = hl, centroid = ct, path2d = newD, fill = fl\<rparr>)"

fun cache_each :: "matter \<Rightarrow> jsnum \<Rightarrow> jsnum \<Rightarrow> pathEl list \<Rightarrow> inst \<Rightarrow> (error + unit) \<times> inst" where
  "cache_each m vlimit sc [] i = (Inr (), i)"
| "cache_each m vlimit sc (e # es) i =
     (case cacheShape m vlimit sc e of
        Inl err \<Rightarrow> (Inl err, i)
      | Inr sh \<Rightarrow> cache_each m vlimit sc es (i\<lparr>shapeCache := shapeCache i @ [sh]\<rparr>))"

definition initShapeCache ::
  "document \<Rightarrow> matter \<Rightarrow> string \<Rightarrow> jsnum \<Rightarrow> jsnum \<Rightarrow> inst \<Rightarrow> (error + unit) \<times> inst" where
  "initShapeCache doc m svgSelector vlimit sc i =
     (if shapeCache i \<noteq> [] then (Inr (), i)
      else case doc svgSelector of
             None \<Rightarrow> (Inr (), i)
           | Some svg \<Rightarrow> cache_each m vlimit sc (paths svg) i)"

section \<open>Construction\<close>

definition initMatter :: "inst \<Rightarrow> inst" where
  "initMatter i =
     i\<lparr>engine := Some \<lparr>world_bodies = [], world_constraints = [],
                        eng_positionIterations = positionIterations (physics (config i)),
                        eng_velocityIterations = velocityIterations (physics (config i))\<rparr>,
       runner := Some \<lparr>running = True\<rparr>\<rparr>"

text \<open>
  \<^verbatim>\<open>new p5(sketch)\<close>: the instance takes the three hooks and binds its window listeners.
  It has no canvas yet and draws no frame until it has run the setup hook. (Its size is
  set when a canvas is created; 100 by 100 is p5's default.)
\<close>

definition initP5 :: "inst \<Rightarrow> host \<Rightarrow> inst" where
  "initP5 i h =
     i\<lparr>p5 := Some \<lparr>looping = False, events_bound = True, has_canvas = False,
                    width = Fin 100, height = Fin 100,
                    pixelDensity = devicePixelRatio h\<rparr>\<rparr>"

definition setupDebugControls :: "inst \<Rightarrow> host \<Rightarrow> host" where
  "setupDebugControls i h =
     (if \<not> devMode (debug (config i)) then h
      else h\<lparr>keydown := keydown h @ [DebugToggle]\<rparr>)"

text \<open>
  The constructor's body, run on a new \<^verbatim>\<open>this\<close>: it gives the error thrown, if any,
  with \<^verbatim>\<open>this\<close> and the host as they are when it ends.
\<close>

definition constructor ::
  "document \<Rightarrow> matter \<Rightarrow> string \<Rightarrow> string \<Rightarrow> custom \<Rightarrow> host \<Rightarrow> error option \<times> inst \<times> host" where
  "constructor doc m containerSel svgSelector customConfig h =
     (let i0 = (blank (deepMerge defaultConfig customConfig))
                 \<lparr>container := doc containerSel, svgSel := svgSelector\<rparr>
      in if container i0 = None then (Some InvalidContainerSelector, i0, h)
         else
           let i1 = i0\<lparr>shapeCache := [], bodies := [], walls := []\<rparr>
           in case initShapeCache doc m svgSelector (vertexLimit (physics (config i1)))
                     (scale (config i1)) i1 of
                (Inl e, i2) \<Rightarrow> (Some e, i2, h)
              | (Inr _, i2) \<Rightarrow>
                  let i3 = initMatter i2;
                      i4 = initP5 i3 h
                  in (None, i4, setupDebugControls i4 h))"

text \<open>\<^verbatim>\<open>new SVGPhysics(...)\<close>: the caller gets the instance only when nothing was thrown.\<close>

definition new_SVGPhysics ::
  "document \<Rightarrow> matter \<Rightarrow> string \<Rightarrow> string \<Rightarrow> custom \<Rightarrow> host \<Rightarrow> (error + inst) \<times> host" where
  "new_SVGPhysics doc m containerSel svgSelector customConfig h =
     (case constructor doc m containerSel svgSelector customConfig h of
        (Some e, i, h') \<Rightarrow> (Inl e, h')
      | (None, i, h') \<Rightarrow> (Inr i, h'))"

section \<open>The p5 setup hook\<close>

definition createCanvas :: "jsnum \<Rightarrow> jsnum \<Rightarrow> p5inst \<Rightarrow> p5inst" where
  "createCanvas w h p = p\<lparr>has_canvas := True, width := w, height := h\<rparr>"

definition resizeCanvas :: "jsnum \<Rightarrow> jsnum \<Rightarrow> p5inst \<Rightarrow> p5inst" where
  "resizeCanvas w h p = p\<lparr>width := w, height := h\<rparr>"

definition setupMouseConstraint :: "p5inst \<Rightarrow> inst \<Rightarrow> (error + unit) \<times> inst" where
  "setupMouseConstraint p i =
     (case container i of
        None \<Rightarrow> (Inl TypeError, i)
      | Some c \<Rightarrow>
          (case engine i of
             None \<Rightarrow> (Inl TypeError, i)
           | Some e \<Rightarrow>
               let mc = \<lparr>mc_stiffness = stiffness (config i), mc_visible = False,
                         mc_pixelRatio = pixelDensity p\<rparr>
               in (Inr (), i\<lparr>engine := Some (e\<lparr>world_constraints := world_constraints e @ [mc]\<rparr>)\<rparr>)))"

fun bounds :: "vec list \<Rightarrow> jsnum \<times> jsnum \<times> jsnum \<times> jsnum \<Rightarrow> jsnum \<times> jsnum \<times> jsnum \<times> jsnum" where
  "bounds [] b = b"
| "bounds (v # vs) (minX, maxX, minY, maxY) =
     bounds vs (js_min minX (vx v), js_max maxX (vx v), js_min minY (vy v), js_max maxY (vy v))"

definition calcCenterOffsets :: "p5inst \<Rightarrow> inst \<Rightarrow> jsnum \<times> jsnum" where
  "calcCenterOffsets p i =
     (let allVerts = concat (map hullVerts (shapeCache i));
          (minX, maxX, minY, maxY) = bounds allVerts (PosInf, NegInf, PosInf, NegInf);
          groupWidth = js_sub maxX minX;
          groupHeight = js_sub maxY minY;
          offsetX = js_sub (js_div (js_sub (width p) groupWidth) (Fin 2)) minX;
          offsetY = js_sub (js_div (js_sub (height p) groupHeight) (Fin 2)) minY
      in (offsetX, offsetY))"

text \<open>The call of \<^verbatim>\<open>Bodies.fromVertices\<close> in \<^verbatim>\<open>#createBodies\<close>, for one shape.\<close>

definition bodyFor :: "matter \<Rightarrow> config \<Rightarrow> jsnum \<Rightarrow> jsnum \<Rightarrow> shape \<Rightarrow> error + mbody option" where
  "bodyFor m c offsetX offsetY sh =
     (let startX = js_add (vx (centroid sh)) offsetX;
          startY = js_add (vy (centroid sh)) offsetY
      in fromVertices m startX startY [hullVerts sh] (restitution (physics c)) (friction (physics c))
           True (simplifyTolerance (physics c)) (minimumArea (physics c)))"

text \<open>
  The loop of \<^verbatim>\<open>#createBodies\<close>. There is no \<^verbatim>\<open>try\<close> around the library call: if it
  throws, the loop ends there and the error goes up to the caller. A body that the
  library made is a new object of the store; \<^verbatim>\<open>this.engine.world\<close> is read only once
  there is a body to add.
\<close>

fun createBodies_each ::
  "matter \<Rightarrow> jsnum \<Rightarrow> jsnum \<Rightarrow> shape list \<Rightarrow> inst \<Rightarrow> host \<Rightarrow> (error + unit) \<times> inst \<times> host" where
  "createBodies_each m ox oy [] i h = (Inr (), i, h)"
| "createBodies_each m ox oy (sh # shs) i h =
     (case bodyFor m (config i) ox oy sh of
        Inl err \<Rightarrow> (Inl err, i, h)
      | Inr None \<Rightarrow> createBodies_each m ox oy shs i h
      | Inr (Some b) \<Rightarrow>
          let a = length (heap h);
              h' = h\<lparr>heap := heap h @ [b]\<rparr>
          in (case engine i of
                None \<Rightarrow> (Inl TypeError, i, h')
              | Some e \<Rightarrow>
                  createBodies_each m ox oy shs
                    (i\<lparr>engine := Some (e\<lparr>world_bodies := world_bodies e @ [a]\<rparr>),
                       bodies := bodies i @ [(a, sh)]\<rparr>) h'))"

definition createBodies :: "matter \<Rightarrow> p5inst \<Rightarrow> inst \<Rightarrow> host \<Rightarrow> (error + unit) \<times> inst \<times> host" where
  "createBodies m p i h =
     (let (offsetX, offsetY) = calcCenterOffsets p i
      in createBodies_each m offsetX offsetY (shapeCache i) i h)"

text \<open>\<^verbatim>\<open>Bodies.rectangle(x, y, width, height, { isStatic })\<close>: a body centred at the position.\<close>

definition rectangle :: "jsnum \<Rightarrow> jsnum \<Rightarrow> jsnum \<Rightarrow> jsnum \<Rightarrow> bool \<Rightarrow> mbody" where
  "rectangle x y w h st =
     (let hw = js_div w (Fin 2); hh = js_div h (Fin 2)
      in \<lparr>position = \<lparr>vx = x, vy = y\<rparr>, velocity = \<lparr>vx = Fin 0, vy = Fin 0\<rparr>, angle = Fin 0,
          isStatic = st,
          vertices = [\<lparr>vx = js_sub x hw, vy = js_sub y hh\<rparr>, \<lparr>vx = js_add x hw, vy = js_sub y hh\<rparr>,
                      \<lparr>vx = js_add x hw, vy = js_add y hh\<rparr>, \<lparr>vx = js_sub x hw, vy = js_add y hh\<rparr>]\<rparr>)"

text \<open>The three walls of a canvas of the given size: floor, left, right.\<close>

definition wall_bodies :: "jsnum \<Rightarrow> jsnum \<Rightarrow> mbody list" where
  "wall_bodies w h =
     [rectangle (js_div w (Fin 2)) (js_add h (Fin 50)) w (Fin 100) True,
      rectangle (Fin (- 50)) (js_div h (Fin 2)) (Fin 100) (js_mul h (Fin 2)) True,
      rectangle (js_add w (Fin 50)) (js_div h (Fin 2)) (Fin 100) (js_mul h (Fin 2)) True]"

definition createWalls :: "p5inst \<Rightarrow> inst \<Rightarrow> host \<Rightarrow> (error + unit) \<times> inst \<times> host" where
  "createWalls p i hst =
     (let w = width p; h = height p;
          a = length (heap hst);
          hst' = hst\<lparr>heap := heap hst @ wall_bodies w h\<rparr>;
          i' = i\<lparr>walls := [a, a + 1, a + 2]\<rparr>
      in case engine i' of
           None \<Rightarrow> (Inl TypeError, i', hst')
         | Some e \<Rightarrow>
             (Inr (), i'\<lparr>engine := Some (e\<lparr>world_bodies := world_bodies e @ walls i'\<rparr>)\<rparr>, hst'))"

definition setup_hook :: "matter \<Rightarrow> p5inst \<Rightarrow> inst \<Rightarrow> host \<Rightarrow> (error + unit) \<times> inst \<times> host" where
  "setup_hook m p0 i hst =
     (case container i of
        None \<Rightarrow> (Inl TypeError, i, hst)
      | Some c \<Rightarrow>
          let w = Fin (of_int (clientWidth c)); h = Fin (of_int (clientHeight c));
              p = createCanvas w h p0;
              i1 = i\<lparr>p5 := Some p\<rparr>
          in (case setupMouseConstraint p i1 of
                (Inl e, i2) \<Rightarrow> (Inl e, i2, hst)
              | (Inr _, i2) \<Rightarrow>
                  (case createBodies m p i2 hst of
                     (Inl e, i3, h3) \<Rightarrow> (Inl e, i3, h3)
                   | (Inr _, i3, h3) \<Rightarrow> createWalls p i3 h3)))"

text \<open>
  \<open>setup_hook\<close> is the method \<^verbatim>\<open>#setup\<close>. p5 calls it once when it starts, with itself as
  the argument, and begins to draw frames when the hook has returned.
\<close>

definition p5_start :: "matter \<Rightarrow> inst \<Rightarrow> host \<Rightarrow> (error + unit) \<times> inst \<times> host" where
  "p5_start m i hst =
     (case p5 i of
        None \<Rightarrow> (Inr (), i, hst)
      | Some p \<Rightarrow>
          (case setup_hook m p i hst of
             (Inl e, i', hst') \<Rightarrow> (Inl e, i', hst')
           | (Inr u, i', hst') \<Rightarrow>
               (Inr u, i'\<lparr>p5 := map_option (\<lambda>q. q\<lparr>looping := True\<rparr>) (p5 i')\<rparr>, hst')))"

section \<open>Resizing\<close>

text \<open>
  \<^verbatim>\<open>Body.setPosition\<close> moves a body: the position is set and the vertices follow. The
  velocity is kept.
\<close>

definition setPosition :: "mbody \<Rightarrow> vec \<Rightarrow> mbody" where
  "setPosition b pos =
     (let dx = js_sub (vx pos) (vx (position b));
          dy = js_sub (vy pos) (vy (position b))
      in b\<lparr>position := pos,
           vertices := map (\<lambda>v. \<lparr>vx = js_add (vx v) dx, vy = js_add (vy v) dy\<rparr>) (vertices b)\<rparr>)"

text \<open>\<^verbatim>\<open>xs[k]\<close> is \<^verbatim>\<open>undefined\<close> out of range, and the library throws on such a body.\<close>

definition at_index :: "'a list \<Rightarrow> nat \<Rightarrow> 'a option" where
  "at_index xs k = (if k < length xs then Some (xs ! k) else None)"

definition Body_setPosition :: "addr option \<Rightarrow> vec \<Rightarrow> host \<Rightarrow> error + host" where
  "Body_setPosition r pos hst =
     (case r of
        None \<Rightarrow> Inl TypeError
      | Some a \<Rightarrow> Inr (hst\<lparr>heap := (heap hst)[a := setPosition (heap hst ! a) pos]\<rparr>))"

definition handleResize :: "p5inst \<Rightarrow> inst \<Rightarrow> host \<Rightarrow> (error + unit) \<times> inst \<times> host" where
  "handleResize p i hst =
     (case container i of
        None \<Rightarrow> (Inl TypeError, i, hst)
      | Some c \<Rightarrow>
          let w = Fin (of_int (clientWidth c)); h = Fin (of_int (clientHeight c));
              i1 = i\<lparr>p5 := Some (resizeCanvas w h p)\<rparr>
          in (case Body_setPosition (at_index (walls i1) 0)
                     \<lparr>vx = js_div w (Fin 2), vy = js_add h (Fin 50)\<rparr> hst of
                Inl e \<Rightarrow> (Inl e, i1, hst)
              | Inr h1 \<Rightarrow>
                  (case Body_setPosition (at_index (walls i1) 2)
                          \<lparr>vx = js_add w (Fin 50), vy = js_div h (Fin 2)\<rparr> h1 of
                     Inl e \<Rightarrow> (Inl e, i1, h1)
                   | Inr h2 \<Rightarrow> (Inr (), i1, h2))))"

section \<open>The public methods\<close>

definition pause :: "inst \<Rightarrow> host \<Rightarrow> (error + jsval) \<times> inst \<times> host" where
  "pause i hst =
     (case runner i of
        None \<Rightarrow> (Inl TypeError, i, hst)
      | Some r \<Rightarrow> (Inr This, i\<lparr>runner := Some (r\<lparr>running := False\<rparr>)\<rparr>, hst))"

definition resume :: "inst \<Rightarrow> host \<Rightarrow> (error + jsval) \<times> inst \<times> host" where
  "resume i hst =
     (case runner i of
        None \<Rightarrow> (Inl TypeError, i, hst)
      | Some r \<Rightarrow> (Inr This, i\<lparr>runner := Some (r\<lparr>running := True\<rparr>)\<rparr>, hst))"

text \<open>
  \<^verbatim>\<open>World.clear\<close> empties the world and \<^verbatim>\<open>Engine.clear\<close> drops the engine's collision pairs
  (not modelled). \<^verbatim>\<open>p5.remove\<close> stops the frame loop and unbinds the instance's window
  listeners when the instance has a canvas; on an instance that has not created one yet
  it does neither. The method has no \<^verbatim>\<open>return\<close> statement, and it calls nothing else: not
  \<^verbatim>\<open>Runner.stop\<close>, not \<^verbatim>\<open>removeEventListener\<close>, not \<^verbatim>\<open>clearTimeout\<close>.
\<close>

definition World_clear :: "engine \<Rightarrow> engine" where
  "World_clear e = e\<lparr>world_bodies := [], world_constraints := []\<rparr>"

definition p5_remove :: "p5inst \<Rightarrow> p5inst" where
  "p5_remove p = (if has_canvas p then p\<lparr>looping := False, events_bound := False\<rparr> else p)"

definition destroy :: "inst \<Rightarrow> host \<Rightarrow> (error + jsval) \<times> inst \<times> host" where
  "destroy i hst =
     (case engine i of
        None \<Rightarrow> (Inl TypeError, i, hst)
      | Some e \<Rightarrow>
          let i1 = i\<lparr>engine := Some (World_clear e)\<rparr>
          in (case p5 i1 of
                None \<Rightarrow> (Inl TypeError, i1, hst)
              | Some p \<Rightarrow> (Inr Undefined, i1\<lparr>p5 := Some (p5_remove p)\<rparr>, hst)))"

section \<open>Events after construction\<close>

text \<open>The listener of \<^verbatim>\<open>#setupDebugControls\<close>, and the window's dispatch of a key.\<close>

definition debugToggle :: "string \<Rightarrow> inst \<Rightarrow> inst" where
  "debugToggle key i =
     (if key = ''b''
      then i\<lparr>config := (config i)\<lparr>debug := (debug (config i))
              \<lparr>showBoundingBoxes := \<not> showBoundingBoxes (debug (config i))\<rparr>\<rparr>\<rparr>
      else i)"

fun dispatch_keydown :: "handler list \<Rightarrow> string \<Rightarrow> inst \<Rightarrow> inst" where
  "dispatch_keydown [] key i = i"
| "dispatch_keydown (DebugToggle # hs) key i = dispatch_keydown hs key (debugToggle key i)"

text \<open>
  A resize of the window gives the container its new client box. If the p5 instance
  still has its listeners, it calls \<^verbatim>\<open>windowResized\<close>, which is \<^verbatim>\<open>debounce\<close> of the handler:
  the pending timeout, if any, is cleared and a new one is set. The handler itself runs
  when the timeout fires, on the p5 instance that the sketch was given.
\<close>

definition layout :: "int \<Rightarrow> int \<Rightarrow> inst \<Rightarrow> inst" where
  "layout w h i =
     i\<lparr>container := map_option (\<lambda>c. c\<lparr>clientWidth := w, clientHeight := h\<rparr>) (container i)\<rparr>"

definition windowResized :: "int \<Rightarrow> int \<Rightarrow> inst \<Rightarrow> host \<Rightarrow> inst \<times> host" where
  "windowResized w h i hst =
     (let i1 = layout w h i
      in case p5 i1 of
           None \<Rightarrow> (i1, hst)
         | Some p \<Rightarrow> if events_bound p then (i1, hst\<lparr>resizeTimeout := True\<rparr>) else (i1, hst))"

definition timeoutFires :: "inst \<Rightarrow> host \<Rightarrow> inst \<times> host" where
  "timeoutFires i hst =
     (if resizeTimeout hst
      then (case p5 i of
              None \<Rightarrow> (i, hst\<lparr>resizeTimeout := False\<rparr>)
            | Some p \<Rightarrow> snd (handleResize p i (hst\<lparr>resizeTimeout := False\<rparr>)))
      else (i, hst))"




datatype event =
  Resize int int | TimeoutFires | KeyDown string | CallPause | CallResume | CallDestroy

fun step :: "event \<Rightarrow> inst \<times> host \<Rightarrow> inst \<times> host" where
  "step (Resize w h) (i, hst) = windowResized w h i hst"
| "step TimeoutFires (i, hst) = timeoutFires i hst"
| "step (KeyDown key) (i, hst) = (dispatch_keydown (keydown hst) key i, hst)"
| "step CallPause (i, hst) = snd (pause i hst)"
| "step CallResume (i, hst) = snd (resume i hst)"
| "step CallDestroy (i, hst) = snd (destroy i hst)"

definition run :: "event list \<Rightarrow> inst \<times> host \<Rightarrow> inst \<times> host" where
  "run evs st = fold step evs st"

section \<open>A page to run the program on\<close>

text \<open>
  The page of \<^verbatim>\<open>app.js\<close>: a container \<^verbatim>\<open>#container\<close> of 800 by 600 and an \<^verbatim>\<open>svg\<close> root
  with three closed paths, constructed with the options that \<^verbatim>\<open>app.js\<close> passes (the scale
  is \<^verbatim>\<open>0.000725 * innerWidth\<close>).

  The library is a stand-in. Its path sampling is a toy: a closed path gives a triangle,
  an open one gives no vertex. Its \<^verbatim>\<open>Bodies.fromVertices\<close> has the two behaviours of the
  library that the statements below turn on: on an empty vertex set it throws, and a set
  of three or more points becomes a body whatever the minimum area is (the library
  applies the minimum area only to the parts of a concave set that it decomposes, and a
  hull is convex). For one or two points it returns no body.
\<close>

definition paths_ex :: "pathEl list" where
  "paths_ex =
     [\<lparr>attr_d = Some ''M0 0L10 0L0 10z'', attr_fill = None\<rparr>,
      \<lparr>attr_d = Some ''M1 1L5 1L1 5z'', attr_fill = Some []\<rparr>,
      \<lparr>attr_d = Some ''M0 0L4 0L0 4z'', attr_fill = Some ''red''\<rparr>]"

definition svg_ex :: element where
  "svg_ex = \<lparr>clientWidth = 300, clientHeight = 150, paths = paths_ex\<rparr>"

definition doc_ex :: document where
  "doc_ex sel =
     (if sel = ''#container'' then Some \<lparr>clientWidth = 800, clientHeight = 600, paths = []\<rparr>
      else if sel = ''svg'' then Some svg_ex
      else None)"

definition pt :: "rat \<Rightarrow> rat \<Rightarrow> vec" where
  "pt a b = \<lparr>vx = Fin a, vy = Fin b\<rparr>"

definition toy_matter :: matter where
  "toy_matter =
     \<lparr>pathToVertices =
        (\<lambda>el sl. case attr_d el of
                    None \<Rightarrow> []
                  | Some d \<Rightarrow> if CHR ''z'' \<in> set d then [pt 0 0, pt 6 0, pt 0 6] else []),
      hull_of = (\<lambda>vs. vs),
      centre_of = (\<lambda>vs. if vs = [] then \<lparr>vx = NaN, vy = NaN\<rparr> else pt 2 2),
      fromVertices =
        (\<lambda>x y sets r f fl tol ma.
           if concat sets = [] then Inl LibraryError
           else if length (concat sets) < 3 then Inr None
           else Inr (Some \<lparr>position = \<lparr>vx = x, vy = y\<rparr>, velocity = pt 0 0, angle = Fin 0,
                            isStatic = False, vertices = concat sets\<rparr>))\<rparr>"

definition app_custom :: "rat \<Rightarrow> custom" where
  "app_custom innerWidth =
     \<lparr>c_scale = Some (Fin (725 / 1000000 * innerWidth)),
      c_devMode = Some True, c_showBoundingBoxes = Some False,
      c_restitution = Some (Fin (65 / 100)), c_friction = Some (Fin 0),
      c_vertexLimit = None, c_simplifyTolerance = None, c_minimumArea = None,
      c_positionIterations = None, c_velocityIterations = None,
      c_stiffness = None, c_stroke = None, c_strokeWidth = None\<rparr>"

definition host_ex :: host where
  "host_ex = \<lparr>heap = [], keydown = [], devicePixelRatio = Fin 2, resizeTimeout = False\<rparr>"

text \<open>
  The instance of \<^verbatim>\<open>app.js\<close> at an inner width of 1000: as the constructor leaves it, and
  after p5 has run the setup hook.
\<close>

definition built_ex :: "error option \<times> inst \<times> host" where
  "built_ex = constructor doc_ex toy_matter ''#container'' ''svg'' (app_custom 1000) host_ex"

definition ready_ex :: "(error + unit) \<times> inst \<times> host" where
  "ready_ex = p5_start toy_matter (fst (snd built_ex)) (snd (snd built_ex))"

text \<open>The p5 instance with its canvas of 800 by 600.\<close>

definition canvas_ex :: p5inst where
  "canvas_ex = \<lparr>looping = False, events_bound = True, has_canvas = True,
                 width = Fin 800, height = Fin 600, pixelDensity = Fin 2\<rparr>"



section \<open>The area of a hull\<close>



section \<open>Invariants of an instance\<close>

text \<open>
  What the constructor leaves behind when it returns: the container, the engine, the
  runner and the p5 instance are all there.
\<close>

definition constructed :: "inst \<Rightarrow> bool" where
  "constructed i =
     (container i \<noteq> None \<and> engine i \<noteq> None \<and> runner i \<noteq> None \<and> p5 i \<noteq> None)"

text \<open>
  The bodies of the instance are objects of the store, and no wall is one of them.
\<close>

definition separate :: "inst \<Rightarrow> host \<Rightarrow> bool" where
  "separate i hst =
     (list_all (\<lambda>(a, sh). a < length (heap hst) \<and> a \<notin> set (walls i)) (bodies i))"

text \<open>p5 has been removed: no frame is drawn and no window event reaches the instance.\<close>

definition removed :: "inst \<Rightarrow> bool" where
  "removed i = (case p5 i of None \<Rightarrow> False | Some p \<Rightarrow> \<not> looping p \<and> \<not> events_bound p)"



section \<open>Scaling a path string\<close>

text \<open>
  C4. The path-string scaling is meant to multiply every number of the path by the factor
  and to keep the command structure. At the path \<^verbatim>\<open>M1.5.5\<close> (a move to the point
  (1.5, 0.5), in the compact notation where the second number starts at its dot) and the
  factor 2, the pattern finds the tokens \<^verbatim>\<open>1.5\<close> and \<^verbatim>\<open>.5\<close>, and their replacements
  \<^verbatim>\<open>3\<close> and \<^verbatim>\<open>1\<close> are written with nothing between them: the result \<^verbatim>\<open>M31\<close> holds one
  number where the path had two.
\<close>

theorem scaleDString_joins_numbers:
  "bt num_re ''1.5.5'' = Some 3 \<and> bt num_re ''.5'' = Some 2 \<and>
   parseFloat ''1.5'' = Fin (3 / 2) \<and> parseFloat ''.5'' = Fin (1 / 2) \<and>
   scaleDString ''M1.5.5'' (Fin 2) = ''M31''"
  by (simp add: scaleDString_def num_re_def is_digit_def parseFloat_def parse_unsigned_def
      digit_val_def digit_char_def)

section \<open>The fill of a cached shape\<close>

lemma cache_each_fill:
  "cache_each m vl sc es i = (r, i') \<Longrightarrow>
   \<exists>n \<le> length es.
     map fill (shapeCache i') = map fill (shapeCache i) @
       map (\<lambda>e. if attr_fill e = None \<or> attr_fill e = Some [] then ''#3498db''
                else the (attr_fill e)) (take n es)
     \<and> (r = Inr () \<longrightarrow> n = length es)"
proof (induction es arbitrary: i)
  case Nil
  then show ?case by auto
next
  case (Cons e es)
  let ?want = "\<lambda>e. if attr_fill e = None \<or> attr_fill e = Some [] then ''#3498db''
                    else the (attr_fill e)"
  show ?case
  proof (cases "cacheShape m vl sc e")
    case (Inl err)
    with Cons.prems have "i' = i" "r = Inl err" by auto
    then show ?thesis by (intro exI[of _ 0]) auto
  next
    case (Inr sh)
    with Cons.prems
    have rest: "cache_each m vl sc es (i\<lparr>shapeCache := shapeCache i @ [sh]\<rparr>) = (r, i')"
      by simp
    from Inr have f: "fill sh = ?want e"
      by (auto simp: cacheShape_def or_else_def Let_def split: option.splits if_splits)
    from Cons.IH[OF rest] obtain n where n: "n \<le> length es"
      "map fill (shapeCache i') =
         map fill (shapeCache (i\<lparr>shapeCache := shapeCache i @ [sh]\<rparr>)) @ map ?want (take n es)"
      "r = Inr () \<longrightarrow> n = length es"
      by blast
    show ?thesis
      using n f by (intro exI[of _ "Suc n"]) simp
  qed
qed

text \<open>
  C10. When the shape cache is built from the paths of the SVG root, the shapes cached
  are those of the paths up to the first one that makes the loop throw (all of them when
  it returns), in order, and the fill of each is the default colour \<^verbatim>\<open>#3498db\<close> if the
  path's \<^verbatim>\<open>fill\<close> attribute is absent or empty, and the attribute's value otherwise.
\<close>

theorem initShapeCache_fill:
  assumes "initShapeCache doc m sel vl sc i = (r, i')"
    and "shapeCache i = []"
    and "doc sel = Some svg"
  shows "\<exists>n \<le> length (paths svg).
     map fill (shapeCache i') =
       map (\<lambda>e. if attr_fill e = None \<or> attr_fill e = Some [] then ''#3498db''
                else the (attr_fill e)) (take n (paths svg))
     \<and> (r = Inr () \<longrightarrow> n = length (paths svg))"
  using assms cache_each_fill[of m vl sc "paths svg" i r i']
  by (simp add: initShapeCache_def)

theorem initShapeCache_fill_witness:
  "shapeCache (blank defaultConfig) = [] \<and> doc_ex ''svg'' = Some svg_ex \<and>
   fst (initShapeCache doc_ex toy_matter ''svg'' (Fin 14) (Fin 2) (blank defaultConfig)) = Inr () \<and>
   map fill (shapeCache (snd (initShapeCache doc_ex toy_matter ''svg'' (Fin 14) (Fin 2)
       (blank defaultConfig))))
     = [''#3498db'', ''#3498db'', ''red'']"
proof -
  let ?res = "initShapeCache doc_ex toy_matter ''svg'' (Fin 14) (Fin 2) (blank defaultConfig)"
  have a: "shapeCache (blank defaultConfig) = []" by (simp add: blank_def)
  have b: "doc_ex ''svg'' = Some svg_ex" by (simp add: doc_ex_def)
  have c: "fst ?res = Inr ()"
    by (simp add: initShapeCache_def blank_def doc_ex_def svg_ex_def paths_ex_def
        cacheShape_def Let_def)
  have d: "?res = (fst ?res, snd ?res)" by simp
  from initShapeCache_fill[OF d a b] c
  have "map fill (shapeCache (snd ?res)) = [''#3498db'', ''#3498db'', ''red'']"
    by (auto simp: svg_ex_def paths_ex_def)
  with a b c show ?thesis by simp
qed

section \<open>Construction with a container that does not resolve\<close>

text \<open>
  C6. When the container selector resolves to no element, the constructor throws the
  error \<^verbatim>\<open>Invalid container selector\<close> and the caller gets no instance. At the throw the
  host (the store of bodies and the window's listeners) is as it was, and \<^verbatim>\<open>this\<close> has no
  engine, no runner, no p5 instance, no shape, no body and no wall.
\<close>

theorem constructor_invalid_container:
  assumes "doc containerSel = None"
  shows "new_SVGPhysics doc m containerSel svgSelector customConfig h
           = (Inl InvalidContainerSelector, h) \<and>
         (\<exists>i. constructor doc m containerSel svgSelector customConfig h
                = (Some InvalidContainerSelector, i, h) \<and>
              engine i = None \<and> runner i = None \<and> p5 i = None \<and>
              shapeCache i = [] \<and> bodies i = [] \<and> walls i = [])"
  using assms by (simp add: new_SVGPhysics_def constructor_def blank_def Let_def)

theorem constructor_invalid_container_witness:
  "doc_ex ''#footer'' = None \<and>
   new_SVGPhysics doc_ex toy_matter ''#footer'' ''svg'' (app_custom 1000) host_ex
     = (Inl InvalidContainerSelector, host_ex) \<and>
   fst (constructor doc_ex toy_matter ''#footer'' ''svg'' (app_custom 1000) host_ex)
     = Some InvalidContainerSelector"
proof -
  have a: "doc_ex ''#footer'' = None" by (simp add: doc_ex_def)
  from constructor_invalid_container[of doc_ex "''#footer''" toy_matter "''svg''"
      "app_custom 1000" host_ex] a
  show ?thesis by auto
qed

section \<open>Construction with no path\<close>





section \<open>What each operation leaves unchanged\<close>

lemma cache_each_frame:
  "cache_each m vl sc es i = (r, i') \<Longrightarrow> i' = i\<lparr>shapeCache := shapeCache i'\<rparr>"
proof (induction es arbitrary: i)
  case Nil
  then show ?case by simp
next
  case (Cons e es)
  show ?case
  proof (cases "cacheShape m vl sc e")
    case (Inl err)
    with Cons.prems show ?thesis by simp
  next
    case (Inr sh)
    with Cons.prems
    have "cache_each m vl sc es (i\<lparr>shapeCache := shapeCache i @ [sh]\<rparr>) = (r, i')" by simp
    from Cons.IH[OF this]
    have "i' = (i\<lparr>shapeCache := shapeCache i @ [sh]\<rparr>)\<lparr>shapeCache := shapeCache i'\<rparr>" .
    then show ?thesis by simp
  qed
qed

lemma initShapeCache_frame:
  "initShapeCache doc m sel vl sc i = (r, i') \<Longrightarrow> i' = i\<lparr>shapeCache := shapeCache i'\<rparr>"
  by (auto simp: initShapeCache_def dest: cache_each_frame split: if_splits option.splits)

lemma constructor_returns:
  assumes "constructor doc m cs ss cc h = (None, i, h')"
  shows "constructed i \<and> bodies i = [] \<and> walls i = [] \<and>
         config i = deepMerge defaultConfig cc \<and> container i = doc cs \<and>
         heap h' = heap h \<and>
         keydown h' = keydown h @ (if devMode (debug (config i)) then [DebugToggle] else [])"
proof -
  let ?i1 = "(blank (deepMerge defaultConfig cc))\<lparr>container := doc cs, svgSel := ss,
               shapeCache := [], bodies := [], walls := []\<rparr>"
  obtain r2 i2 where c: "initShapeCache doc m ss (vertexLimit (physics (config ?i1)))
      (scale (config ?i1)) ?i1 = (r2, i2)"
    by (cases "initShapeCache doc m ss (vertexLimit (physics (config ?i1)))
      (scale (config ?i1)) ?i1") 
  from initShapeCache_frame[OF c] have i2: "i2 = ?i1\<lparr>shapeCache := shapeCache i2\<rparr>" .
  from assms c have ne: "doc cs \<noteq> None"
    by (auto simp: constructor_def Let_def blank_def split: if_splits)
  from assms c ne have "r2 = Inr () \<and> i = initP5 (initMatter i2) h \<and>
      h' = setupDebugControls (initP5 (initMatter i2) h) h"
    by (auto simp: constructor_def Let_def blank_def split: if_splits sum.splits)
  then have i: "i = initP5 (initMatter i2) h" and h': "h' = setupDebugControls i h" by auto
  have f: "container i = doc cs" "bodies i = []" "walls i = []"
    "config i = deepMerge defaultConfig cc" "engine i \<noteq> None" "runner i \<noteq> None" "p5 i \<noteq> None"
    unfolding i by (subst i2, simp add: initP5_def initMatter_def blank_def)+
  show ?thesis using f ne h' by (auto simp: constructed_def setupDebugControls_def)
qed

lemma new_SVGPhysics_returns:
  assumes "new_SVGPhysics doc m cs ss cc h = (Inr i, h')"
  shows "constructor doc m cs ss cc h = (None, i, h')"
  using assms by (auto simp: new_SVGPhysics_def split: prod.splits option.splits)

lemma debugToggle_frame: "\<exists>c. debugToggle key i = i\<lparr>config := c\<rparr>"
proof (cases "key = ''b''")
  case True
  then have "debugToggle key i = i\<lparr>config := (config i)\<lparr>debug := (debug (config i))
              \<lparr>showBoundingBoxes := \<not> showBoundingBoxes (debug (config i))\<rparr>\<rparr>\<rparr>"
    by (simp add: debugToggle_def)
  then show ?thesis by (rule exI)
next
  case False
  then have "debugToggle key i = i\<lparr>config := config i\<rparr>"
    by (simp add: debugToggle_def)
  then show ?thesis by (rule exI)
qed

lemma dispatch_keydown_frame: "\<exists>c. dispatch_keydown hs key i = i\<lparr>config := c\<rparr>"
proof (induction hs arbitrary: i)
  case Nil
  have "dispatch_keydown [] key i = i\<lparr>config := config i\<rparr>" by simp
  then show ?case by (rule exI)
next
  case (Cons a hs)
  obtain c1 where c1: "debugToggle key i = i\<lparr>config := c1\<rparr>"
    using debugToggle_frame by blast
  obtain c2 where c2: "dispatch_keydown hs key (i\<lparr>config := c1\<rparr>) = i\<lparr>config := c1\<rparr>\<lparr>config := c2\<rparr>"
    using Cons.IH by blast
  have "dispatch_keydown (a # hs) key i = i\<lparr>config := c2\<rparr>"
    by (cases a) (simp add: c1 c2)
  then show ?case by (rule exI)
qed

lemma at_index_mem: "at_index xs k = Some a \<Longrightarrow> a \<in> set xs"
  by (auto simp: at_index_def split: if_splits)

lemma Body_setPosition_frame:
  assumes "Body_setPosition r pos h = Inr h'"
  shows "keydown h' = keydown h \<and> devicePixelRatio h' = devicePixelRatio h \<and>
         resizeTimeout h' = resizeTimeout h \<and>
         length (heap h') = length (heap h) \<and>
         (\<forall>a. r \<noteq> Some a \<longrightarrow> heap h' ! a = heap h ! a)"
  using assms by (auto simp: Body_setPosition_def split: option.splits)

lemma handleResize_inst:
  assumes "handleResize p i h = (r, i', h')"
  shows "i' = i \<or> (\<exists>w h. i' = i\<lparr>p5 := Some (resizeCanvas w h p)\<rparr>)"
  using assms
  by (auto simp: handleResize_def Let_def split: option.splits sum.splits)

lemma handleResize_host:
  assumes "handleResize p i h = (r, i', h')"
  shows "keydown h' = keydown h \<and> resizeTimeout h' = resizeTimeout h \<and>
         length (heap h') = length (heap h) \<and>
         (\<forall>a. a \<notin> set (walls i) \<longrightarrow> heap h' ! a = heap h ! a)"
proof (cases "container i")
  case None
  with assms show ?thesis by (simp add: handleResize_def)
next
  case (Some c)
  let ?w = "Fin (of_int (clientWidth c))" and ?h = "Fin (of_int (clientHeight c))"
  let ?p0 = "\<lparr>vx = js_div ?w (Fin 2), vy = js_add ?h (Fin 50)\<rparr>"
  let ?p2 = "\<lparr>vx = js_add ?w (Fin 50), vy = js_div ?h (Fin 2)\<rparr>"
  have ne: "\<And>a k. a \<notin> set (walls i) \<Longrightarrow> at_index (walls i) k \<noteq> Some a"
    using at_index_mem by fastforce
  show ?thesis
  proof (cases "Body_setPosition (at_index (walls i) 0) ?p0 h")
    case (Inl e)
    with assms Some show ?thesis by (simp add: handleResize_def Let_def)
  next
    case (Inr h1)
    note f1 = Body_setPosition_frame[OF Inr]
    show ?thesis
    proof (cases "Body_setPosition (at_index (walls i) 2) ?p2 h1")
      case (Inl e)
      with assms Some Inr have "h' = h1" by (simp add: handleResize_def Let_def)
      moreover have "\<forall>a. a \<notin> set (walls i) \<longrightarrow> heap h1 ! a = heap h ! a"
        using f1 ne by simp
      ultimately show ?thesis using f1 by simp
    next
      case r2: (Inr h2)
      note f2 = Body_setPosition_frame[OF r2]
      from assms Some Inr r2 have "h' = h2" by (simp add: handleResize_def Let_def)
      moreover have "\<forall>a. a \<notin> set (walls i) \<longrightarrow> heap h2 ! a = heap h ! a"
        using f1 f2 ne by simp
      ultimately show ?thesis using f1 f2 by simp
    qed
  qed
qed

lemma pause_frame:
  assumes "pause i h = (r, i', h')"
  shows "h' = h \<and> (\<exists>rn. i' = i\<lparr>runner := rn\<rparr>)"
proof (cases "runner i")
  case None
  with assms have "h' = h" "i' = i\<lparr>runner := runner i\<rparr>" by (auto simp: pause_def)
  then show ?thesis by blast
next
  case (Some rn)
  with assms have "h' = h" "i' = i\<lparr>runner := Some (rn\<lparr>running := False\<rparr>)\<rparr>"
    by (auto simp: pause_def)
  then show ?thesis by blast
qed

lemma resume_frame:
  assumes "resume i h = (r, i', h')"
  shows "h' = h \<and> (\<exists>rn. i' = i\<lparr>runner := rn\<rparr>)"
proof (cases "runner i")
  case None
  with assms have "h' = h" "i' = i\<lparr>runner := runner i\<rparr>" by (auto simp: resume_def)
  then show ?thesis by blast
next
  case (Some rn)
  with assms have "h' = h" "i' = i\<lparr>runner := Some (rn\<lparr>running := True\<rparr>)\<rparr>"
    by (auto simp: resume_def)
  then show ?thesis by blast
qed

lemma destroy_frame:
  assumes "destroy i h = (r, i', h')"
  shows "h' = h \<and> (\<exists>en p. i' = i\<lparr>engine := en, p5 := p\<rparr> \<and> (en = None \<longleftrightarrow> engine i = None) \<and>
     (p = None \<longleftrightarrow> p5 i = None) \<and> (removed i \<longrightarrow> removed i'))"
proof (cases "engine i")
  case None
  with assms have "h' = h" "i' = i\<lparr>engine := engine i, p5 := p5 i\<rparr>" by (auto simp: destroy_def)
  then show ?thesis using None
    by (intro conjI exI[of _ "engine i"] exI[of _ "p5 i"]) (auto simp: removed_def)
next
  case (Some e)
  show ?thesis
  proof (cases "p5 i")
    case None
    with assms Some have "h' = h" "i' = i\<lparr>engine := Some (World_clear e), p5 := p5 i\<rparr>"
      by (auto simp: destroy_def Let_def)
    then show ?thesis using None Some
      by (intro conjI exI[of _ "Some (World_clear e)"] exI[of _ "p5 i"]) (auto simp: removed_def)
  next
    case p: (Some p)
    with assms Some have "h' = h" "i' = i\<lparr>engine := Some (World_clear e), p5 := Some (p5_remove p)\<rparr>"
      by (auto simp: destroy_def Let_def)
    then show ?thesis using p Some
      by (intro conjI exI[of _ "Some (World_clear e)"] exI[of _ "Some (p5_remove p)"])
         (auto simp: removed_def p5_remove_def)
  qed
qed






lemma built_ex_returns: "fst built_ex = None"
  by (simp add: built_ex_def constructor_def blank_def Let_def doc_ex_def svg_ex_def
      paths_ex_def initShapeCache_def cacheShape_def)

lemma built_ex_facts:
  "constructed (fst (snd built_ex)) \<and>
   config (fst (snd built_ex)) = deepMerge defaultConfig (app_custom 1000) \<and>
   keydown (snd (snd built_ex)) = [DebugToggle]"
proof -
  have "constructor doc_ex toy_matter ''#container'' ''svg'' (app_custom 1000) host_ex
        = (None, fst (snd built_ex), snd (snd built_ex))"
    using built_ex_returns by (metis built_ex_def prod.collapse)
  from constructor_returns[OF this] show ?thesis
    by (simp add: host_ex_def deepMerge_def app_custom_def pick_def)
qed

section \<open>Return values of the public methods\<close>

text \<open>
  C9 as stated fails: \<^verbatim>\<open>destroy\<close> has no \<^verbatim>\<open>return\<close> statement. On the instance of
  \<^verbatim>\<open>app.js\<close> the constructor returns and \<^verbatim>\<open>destroy()\<close> does not return the instance.
\<close>

theorem destroy_returns_undefined:
  "fst built_ex = None \<and>
   fst (destroy (fst (snd built_ex)) (snd (snd built_ex))) \<noteq> Inr This"
proof -
  have "constructed (fst (snd built_ex))" using built_ex_facts by simp
  then have "fst (destroy (fst (snd built_ex)) (snd (snd built_ex))) = Inr Undefined"
    by (auto simp: constructed_def destroy_def Let_def)
  then show ?thesis using built_ex_returns by simp
qed

text \<open>
  C9, amended. On every constructed instance (the state the constructor leaves, which
  the setup hook and every later event keep), \<^verbatim>\<open>pause()\<close> and \<^verbatim>\<open>resume()\<close> return the
  instance itself, and \<^verbatim>\<open>destroy()\<close> returns \<^verbatim>\<open>undefined\<close>.
\<close>

theorem lifecycle_return_values:
  assumes "constructed i"
  shows "fst (pause i h) = Inr This \<and> fst (resume i h) = Inr This \<and>
         fst (destroy i h) = Inr Undefined"
  using assms by (auto simp: constructed_def pause_def resume_def destroy_def Let_def)

theorem lifecycle_return_values_witness:
  "constructed (fst (snd built_ex)) \<and>
   fst (pause (fst (snd built_ex)) (snd (snd built_ex))) = Inr This \<and>
   fst (resume (fst (snd built_ex)) (snd (snd built_ex))) = Inr This \<and>
   fst (destroy (fst (snd built_ex)) (snd (snd built_ex))) = Inr Undefined"
  using built_ex_facts lifecycle_return_values[of "fst (snd built_ex)" "snd (snd built_ex)"]
  by simp




section \<open>Destroying an instance\<close>









section \<open>Creating the bodies\<close>

lemma createBodies_each_spec:
  assumes "engine i = Some e" and "\<forall>sh. bodyFor m (config i) ox oy sh = f sh"
  shows "\<exists>i' h' e' bs new.
      createBodies_each m ox oy shs i h =
        ((case dropWhile (\<lambda>sh. \<not> isl (f sh)) shs of
            [] \<Rightarrow> Inr ()
          | sh # _ \<Rightarrow> map_sum id (\<lambda>_. ()) (f sh)), i', h') \<and>
      engine i' = Some e' \<and>
      world_bodies e' = world_bodies e @ map fst new \<and>
      world_constraints e' = world_constraints e \<and>
      bodies i' = bodies i @ new \<and>
      map snd new =
        filter (\<lambda>sh. \<exists>b. f sh = Inr (Some b)) (takeWhile (\<lambda>sh. \<not> isl (f sh)) shs) \<and>
      list_all (\<lambda>(a, sh). length (heap h) \<le> a \<and> a < length (heap h') \<and>
                          Inr (Some (heap h' ! a)) = f sh) new \<and>
      heap h' = heap h @ bs \<and>
      keydown h' = keydown h \<and> resizeTimeout h' = resizeTimeout h \<and>
      config i' = config i \<and> shapeCache i' = shapeCache i \<and> walls i' = walls i \<and>
      container i' = container i \<and> runner i' = runner i \<and> p5 i' = p5 i"
  using assms
proof (induction shs arbitrary: i h e)
  case Nil
  show ?case
    by (rule exI[of _ i], rule exI[of _ h], rule exI[of _ e], rule exI[of _ "[]"],
        rule exI[of _ "[]"]) (simp add: Nil.prems)
next
  case (Cons sh shs)
  from Cons.prems(2) have fsh: "bodyFor m (config i) ox oy sh = f sh" by simp
  show ?case
  proof (cases "f sh")
    case (Inl err)
    show ?thesis
      by (rule exI[of _ i], rule exI[of _ h], rule exI[of _ e], rule exI[of _ "[]"],
          rule exI[of _ "[]"]) (simp add: Cons.prems(1) fsh Inl)
  next
    case (Inr v)
    show ?thesis
    proof (cases v)
      case None
      from Cons.IH[OF Cons.prems, of h] obtain i' h' e' bs new where
        r: "createBodies_each m ox oy shs i h =
              ((case dropWhile (\<lambda>sh. \<not> isl (f sh)) shs of
                  [] \<Rightarrow> Inr ()
                | sh # _ \<Rightarrow> map_sum id (\<lambda>_. ()) (f sh)), i', h')"
        and rest: "engine i' = Some e'"
          "world_bodies e' = world_bodies e @ map fst new"
          "world_constraints e' = world_constraints e"
          "bodies i' = bodies i @ new"
          "map snd new =
             filter (\<lambda>sh. \<exists>b. f sh = Inr (Some b)) (takeWhile (\<lambda>sh. \<not> isl (f sh)) shs)"
          "list_all (\<lambda>(a, sh). length (heap h) \<le> a \<and> a < length (heap h') \<and>
                          Inr (Some (heap h' ! a)) = f sh) new"
          "heap h' = heap h @ bs"
          "keydown h' = keydown h" "resizeTimeout h' = resizeTimeout h"
          "config i' = config i" "shapeCache i' = shapeCache i" "walls i' = walls i"
          "container i' = container i" "runner i' = runner i" "p5 i' = p5 i"
        by blast
      have c1: "createBodies_each m ox oy (sh # shs) i h =
              ((case dropWhile (\<lambda>sh. \<not> isl (f sh)) (sh # shs) of
                  [] \<Rightarrow> Inr ()
                | sh # _ \<Rightarrow> map_sum id (\<lambda>_. ()) (f sh)), i', h')"
        using r by (simp add: fsh Inr None)
      have c5: "map snd new =
          filter (\<lambda>sh. \<exists>b. f sh = Inr (Some b)) (takeWhile (\<lambda>sh. \<not> isl (f sh)) (sh # shs))"
        using rest(5) by (simp add: Inr None)
      from c1 rest(1-4) c5 rest(6-15) show ?thesis
        by (intro exI[of _ i'] exI[of _ h'] exI[of _ e'] exI[of _ bs] exI[of _ new] conjI)
    next
      case (Some b)
      let ?a = "length (heap h)"
      let ?e1 = "e\<lparr>world_bodies := world_bodies e @ [?a]\<rparr>"
      let ?i1 = "i\<lparr>engine := Some ?e1, bodies := bodies i @ [(?a, sh)]\<rparr>"
      let ?h1 = "h\<lparr>heap := heap h @ [b]\<rparr>"
      have st: "createBodies_each m ox oy (sh # shs) i h = createBodies_each m ox oy shs ?i1 ?h1"
        using Some Inr fsh Cons.prems(1) by (simp add: Let_def)
      have e1: "engine ?i1 = Some ?e1" by simp
      have f1: "\<forall>sh. bodyFor m (config ?i1) ox oy sh = f sh" using Cons.prems(2) by simp
      from Cons.IH[OF e1 f1, of ?h1] obtain i' h' e' bs new where
        r: "createBodies_each m ox oy shs ?i1 ?h1 =
              ((case dropWhile (\<lambda>sh. \<not> isl (f sh)) shs of
                  [] \<Rightarrow> Inr ()
                | sh # _ \<Rightarrow> map_sum id (\<lambda>_. ()) (f sh)), i', h')"
        and rest: "engine i' = Some e'"
          "world_bodies e' = world_bodies ?e1 @ map fst new"
          "world_constraints e' = world_constraints ?e1"
          "bodies i' = bodies ?i1 @ new"
          "map snd new =
             filter (\<lambda>sh. \<exists>b. f sh = Inr (Some b)) (takeWhile (\<lambda>sh. \<not> isl (f sh)) shs)"
          "list_all (\<lambda>(a, sh). length (heap ?h1) \<le> a \<and> a < length (heap h') \<and>
                          Inr (Some (heap h' ! a)) = f sh) new"
          "heap h' = heap ?h1 @ bs"
          "keydown h' = keydown ?h1" "resizeTimeout h' = resizeTimeout ?h1"
          "config i' = config ?i1" "shapeCache i' = shapeCache ?i1" "walls i' = walls ?i1"
          "container i' = container ?i1" "runner i' = runner ?i1" "p5 i' = p5 ?i1"
        by blast
      let ?new = "(?a, sh) # new"
      have c1: "createBodies_each m ox oy (sh # shs) i h =
              ((case dropWhile (\<lambda>sh. \<not> isl (f sh)) (sh # shs) of
                  [] \<Rightarrow> Inr ()
                | sh # _ \<Rightarrow> map_sum id (\<lambda>_. ()) (f sh)), i', h')"
        by (simp only: st r) (simp add: Inr)
      have c2: "world_bodies e' = world_bodies e @ map fst ?new" using rest(2) by simp
      have c3: "world_constraints e' = world_constraints e" using rest(3) by simp
      have c4: "bodies i' = bodies i @ ?new" using rest(4) by simp
      have c5: "map snd ?new =
          filter (\<lambda>sh. \<exists>b. f sh = Inr (Some b)) (takeWhile (\<lambda>sh. \<not> isl (f sh)) (sh # shs))"
        using rest(5) by (simp add: Inr Some)
      have hd: "length (heap h) \<le> ?a \<and> ?a < length (heap h') \<and>
                Inr (Some (heap h' ! ?a)) = f sh"
        using rest(7) by (simp add: Inr Some nth_append)
      have tl: "list_all (\<lambda>(a, sh). length (heap h) \<le> a \<and> a < length (heap h') \<and>
                          Inr (Some (heap h' ! a)) = f sh) new"
        using rest(6) by (auto simp: list_all_iff)
      from hd tl have c6: "list_all (\<lambda>(a, sh). length (heap h) \<le> a \<and> a < length (heap h') \<and>
                          Inr (Some (heap h' ! a)) = f sh) ?new"
        by simp
      have c7: "heap h' = heap h @ (b # bs)" using rest(7) by simp
      have c8: "keydown h' = keydown h" "resizeTimeout h' = resizeTimeout h"
          "config i' = config i" "shapeCache i' = shapeCache i" "walls i' = walls i"
          "container i' = container i" "runner i' = runner i" "p5 i' = p5 i"
        using rest(8-15) by simp_all
      from c1 rest(1) c2 c3 c4 c5 c6 c7 c8 show ?thesis
        by (intro exI[of _ i'] exI[of _ h'] exI[of _ e'] exI[of _ "b # bs"]
            exI[of _ ?new] conjI)
    qed
  qed
qed



lemma windowResized_frame:
  assumes "windowResized w hh i h = (i', h')"
  shows "bodies i' = bodies i \<and> walls i' = walls i \<and> shapeCache i' = shapeCache i \<and>
         engine i' = engine i \<and> runner i' = runner i \<and> config i' = config i \<and>
         p5 i' = p5 i \<and> (container i \<noteq> None \<longrightarrow> container i' \<noteq> None) \<and>
         keydown h' = keydown h \<and> heap h' = heap h"
  using assms
  by (auto simp: windowResized_def layout_def Let_def split: option.splits if_splits)

lemma timeoutFires_frame:
  assumes "timeoutFires i h = (i', h')"
  shows "bodies i' = bodies i \<and> walls i' = walls i \<and> shapeCache i' = shapeCache i \<and>
         engine i' = engine i \<and> runner i' = runner i \<and> config i' = config i \<and>
         container i' = container i \<and> (p5 i \<noteq> None \<longrightarrow> p5 i' \<noteq> None) \<and>
         keydown h' = keydown h \<and> length (heap h') = length (heap h) \<and>
         (\<forall>a. a \<notin> set (walls i) \<longrightarrow> heap h' ! a = heap h ! a)"
proof (cases "\<exists>p. resizeTimeout h \<and> p5 i = Some p")
  case False
  with assms have "i' = i" "heap h' = heap h" "keydown h' = keydown h"
    by (auto simp: timeoutFires_def split: if_splits option.splits)
  then show ?thesis by simp
next
  case True
  then obtain p where p: "resizeTimeout h" "p5 i = Some p" by blast
  let ?h0 = "h\<lparr>resizeTimeout := False\<rparr>"
  from p assms have "handleResize p i ?h0 = (fst (handleResize p i ?h0), i', h')"
    by (cases "handleResize p i ?h0") (simp add: timeoutFires_def)
  from handleResize_inst[OF this] handleResize_host[OF this] p
  show ?thesis by auto
qed

lemma step_frame:
  assumes "step ev (i, h) = (i', h')"
  shows "bodies i' = bodies i \<and> walls i' = walls i \<and> shapeCache i' = shapeCache i \<and>
         (constructed i \<longrightarrow> constructed i') \<and>
         keydown h' = keydown h \<and> length (heap h') = length (heap h) \<and>
         (\<forall>a. a \<notin> set (walls i) \<longrightarrow> heap h' ! a = heap h ! a)"
proof (cases ev)
  case (Resize w hh)
  with assms have "windowResized w hh i h = (i', h')" by simp
  from windowResized_frame[OF this] show ?thesis by (simp add: constructed_def)
next
  case TimeoutFires
  with assms have "timeoutFires i h = (i', h')" by simp
  from timeoutFires_frame[OF this] show ?thesis by (simp add: constructed_def)
next
  case (KeyDown key)
  obtain c where c: "dispatch_keydown (keydown h) key i = i\<lparr>config := c\<rparr>"
    using dispatch_keydown_frame by blast
  with assms KeyDown have "i' = i\<lparr>config := c\<rparr>" "h' = h" by simp_all
  then show ?thesis by (simp add: constructed_def)
next
  case CallPause
  with assms have "snd (pause i h) = (i', h')" by simp
  then show ?thesis
    by (auto simp: constructed_def pause_def split: option.splits)
next
  case CallResume
  with assms have "snd (resume i h) = (i', h')" by simp
  then show ?thesis
    by (auto simp: constructed_def resume_def split: option.splits)
next
  case CallDestroy
  with assms have "destroy i h = (fst (destroy i h), i', h')"
    by (cases "destroy i h") simp
  from destroy_frame[OF this] show ?thesis by (auto simp: constructed_def)
qed

lemma separate_step:
  assumes "separate i h" and "step ev (i, h) = (i', h')"
  shows "separate i' h' \<and> map (\<lambda>(a, sh). heap h' ! a) (bodies i) = map (\<lambda>(a, sh). heap h ! a) (bodies i)"
  using step_frame[OF assms(2)] assms(1)
  by (auto simp: separate_def list_all_iff)

lemma run_frame:
  assumes "run evs (i, h) = (i', h')"
  shows "bodies i' = bodies i \<and> walls i' = walls i \<and> shapeCache i' = shapeCache i \<and>
         (constructed i \<longrightarrow> constructed i') \<and>
         keydown h' = keydown h \<and> length (heap h') = length (heap h) \<and>
         (separate i h \<longrightarrow> separate i' h' \<and>
            map (\<lambda>(a, sh). heap h' ! a) (bodies i) = map (\<lambda>(a, sh). heap h ! a) (bodies i))"
  using assms
proof (induction evs arbitrary: i h)
  case Nil
  then show ?case by (simp add: run_def)
next
  case (Cons ev evs)
  obtain i1 h1 where s: "step ev (i, h) = (i1, h1)" by (cases "step ev (i, h)")
  with Cons.prems have r: "run evs (i1, h1) = (i', h')" by (simp add: run_def)
  from step_frame[OF s] Cons.IH[OF r] separate_step[OF _ s]
  show ?case by auto
qed


lemma built_ex_new:
  "new_SVGPhysics doc_ex toy_matter ''#container'' ''svg'' (app_custom 1000) host_ex
     = (Inr (fst (snd built_ex)), snd (snd built_ex))"
  using built_ex_returns
  by (simp add: new_SVGPhysics_def built_ex_def[symmetric] split_beta)












section \<open>Resizing leaves the bodies alone\<close>

lemma setup_hook_spec:
  assumes "constructed i" and "bodies i = []" and "walls i = []"
  shows "\<exists>r i' h'. setup_hook m p0 i h = (r, i', h') \<and> separate i' h' \<and> constructed i' \<and>
           shapeCache i' = shapeCache i \<and>
           (if r = Inr () then length (walls i') = 3 else walls i' = [])"
proof -
  from assms(1) obtain c e where c: "container i = Some c" and e: "engine i = Some e"
    and rn: "runner i \<noteq> None"
    by (auto simp: constructed_def)
  let ?w = "Fin (of_int (clientWidth c))" and ?h = "Fin (of_int (clientHeight c))"
  let ?p = "createCanvas ?w ?h p0"
  let ?mc = "\<lparr>mc_stiffness = stiffness (config i), mc_visible = False,
              mc_pixelRatio = pixelDensity ?p\<rparr>"
  let ?e2 = "e\<lparr>world_constraints := world_constraints e @ [?mc]\<rparr>"
  let ?i2 = "i\<lparr>p5 := Some ?p, engine := Some ?e2\<rparr>"
  have m: "setupMouseConstraint ?p (i\<lparr>p5 := Some ?p\<rparr>) = (Inr (), ?i2)"
    using c e by (simp add: setupMouseConstraint_def Let_def)
  have e2: "engine ?i2 = Some ?e2" by simp
  let ?ox = "fst (calcCenterOffsets ?p ?i2)" and ?oy = "snd (calcCenterOffsets ?p ?i2)"
  have f: "\<forall>sh. bodyFor m (config ?i2) ?ox ?oy sh = bodyFor m (config ?i2) ?ox ?oy sh"
    by simp
  from createBodies_each_spec[OF e2 f, of "shapeCache ?i2" h]
  obtain r3 i3 h3 e3 new where
    r: "createBodies_each m ?ox ?oy (shapeCache ?i2) ?i2 h = (r3, i3, h3)"
    and e3: "engine i3 = Some e3"
    and b3: "bodies i3 = bodies ?i2 @ new"
    and la: "list_all (\<lambda>(a, sh). length (heap h) \<le> a \<and> a < length (heap h3) \<and>
                Inr (Some (heap h3 ! a)) = bodyFor m (config ?i2) ?ox ?oy sh) new"
    and fr: "shapeCache i3 = shapeCache ?i2" "container i3 = container ?i2"
       "runner i3 = runner ?i2" "p5 i3 = p5 ?i2" "walls i3 = walls ?i2"
    by (elim exE conjE)
  have cb: "createBodies m ?p ?i2 h = (r3, i3, h3)"
    using r by (simp add: createBodies_def split_beta)
  have lt: "\<forall>x \<in> set (bodies i3). fst x < length (heap h3)"
    using la b3 assms(2) by (auto simp: list_all_iff)
  have con3: "constructed i3" using c rn fr e3 by (simp add: constructed_def)
  show ?thesis
  proof (cases r3)
    case (Inl err)
    have run: "setup_hook m p0 i h = (Inl err, i3, h3)"
      using c m cb Inl by (simp add: setup_hook_def Let_def)
    have sep: "separate i3 h3"
      using lt fr(5) assms(3) by (auto simp: separate_def list_all_iff)
    from run sep con3 fr(1) fr(5) assms(3) show ?thesis by simp
  next
    case (Inr u)
    let ?n = "length (heap h3)"
    let ?i4 = "i3\<lparr>walls := [?n, ?n + 1, ?n + 2],
                  engine := Some (e3\<lparr>world_bodies := world_bodies e3 @ [?n, ?n + 1, ?n + 2]\<rparr>)\<rparr>"
    let ?h4 = "h3\<lparr>heap := heap h3 @ wall_bodies (width ?p) (height ?p)\<rparr>"
    have cw: "createWalls ?p i3 h3 = (Inr (), ?i4, ?h4)"
      using e3 by (simp add: createWalls_def Let_def)
    have run: "setup_hook m p0 i h = (Inr (), ?i4, ?h4)"
      using c m cb cw Inr by (simp add: setup_hook_def Let_def)
    from lt have sep: "separate ?i4 ?h4"
      by (auto simp: separate_def list_all_iff)
    have con: "constructed ?i4" using c rn fr by (simp add: constructed_def)
    from run sep con fr(1) show ?thesis by simp
  qed
qed

lemma p5_start_spec:
  assumes "constructed i" and "bodies i = []" and "walls i = []"
  shows "\<exists>r i' h'. p5_start m i h = (r, i', h') \<and> separate i' h' \<and> constructed i' \<and>
           shapeCache i' = shapeCache i \<and>
           (if r = Inr () then length (walls i') = 3 else walls i' = [])"
proof -
  from assms(1) obtain p where p: "p5 i = Some p" by (auto simp: constructed_def)
  from setup_hook_spec[OF assms, of m p h] obtain r i' h' where
    s: "setup_hook m p i h = (r, i', h')" and sep: "separate i' h'" and con: "constructed i'"
    and sc: "shapeCache i' = shapeCache i"
    and w: "if r = Inr () then length (walls i') = 3 else walls i' = []"
    by (elim exE conjE)
  show ?thesis
  proof (cases r)
    case (Inl err)
    with p s have "p5_start m i h = (Inl err, i', h')" by (simp add: p5_start_def)
    with sep con sc w Inl show ?thesis by simp
  next
    case (Inr u)
    let ?i = "i'\<lparr>p5 := map_option (\<lambda>q. q\<lparr>looping := True\<rparr>) (p5 i')\<rparr>"
    from p s Inr have "p5_start m i h = (Inr (), ?i, h')" by (simp add: p5_start_def)
    moreover from sep have "separate ?i h'" by (simp add: separate_def)
    moreover from con have "constructed ?i" by (simp add: constructed_def)
    ultimately show ?thesis using sc w Inr by simp
  qed
qed

text \<open>
  C5. Take any instance that the constructor returned, after p5 has started and called
  the setup hook (which returns, or ends early where the library throws on a descriptor)
  and after any events. Whatever the resize handler does there (it may return or throw),
  the list of bodies is the same, every body of it is the same object in the same state
  (position, velocity, angle, vertices), the store has as many objects as before, the
  world holds the same bodies, and the shape cache and the list of walls are the same.
  There are three walls when the setup hook returned and none when it threw, and no wall
  is among the bodies.
\<close>

theorem resize_keeps_bodies:
  assumes "new_SVGPhysics doc m containerSel svgSelector customConfig h0 = (Inr i0, h1)"
    and "run evs (snd (p5_start m i0 h1)) = (i, h)"
    and "handleResize p i h = (r, i', h')"
  shows "bodies i' = bodies i \<and>
         map (\<lambda>(a, sh). heap h' ! a) (bodies i') = map (\<lambda>(a, sh). heap h ! a) (bodies i) \<and>
         length (heap h') = length (heap h) \<and>
         map_option world_bodies (engine i') = map_option world_bodies (engine i) \<and>
         shapeCache i' = shapeCache i \<and> walls i' = walls i \<and>
         (if fst (p5_start m i0 h1) = Inr () then length (walls i) = 3 else walls i = []) \<and>
         list_all (\<lambda>(a, sh). a \<notin> set (walls i)) (bodies i)"
proof -
  from constructor_returns[OF new_SVGPhysics_returns[OF assms(1)]]
  have c0: "constructed i0" "bodies i0 = []" "walls i0 = []" by simp_all
  from p5_start_spec[OF c0, of m h1] obtain r1 i1 h2 where
    s: "p5_start m i0 h1 = (r1, i1, h2)" and s2: "separate i1 h2"
    and s3: "if r1 = Inr () then length (walls i1) = 3 else walls i1 = []"
    by (elim exE conjE)
  with assms(2) have "run evs (i1, h2) = (i, h)" by simp
  from run_frame[OF this] s2 have sep: "separate i h" and wi: "walls i = walls i1" by simp_all
  from s s3 wi have w: "if fst (p5_start m i0 h1) = Inr () then length (walls i) = 3
      else walls i = []" by simp
  from handleResize_inst[OF assms(3)]
  have fi: "bodies i' = bodies i" "engine i' = engine i" "shapeCache i' = shapeCache i"
    "walls i' = walls i" by auto
  from handleResize_host[OF assms(3)]
  have fh: "length (heap h') = length (heap h)"
    "\<forall>a. a \<notin> set (walls i) \<longrightarrow> heap h' ! a = heap h ! a" by simp_all
  from sep have dis: "list_all (\<lambda>(a, sh). a \<notin> set (walls i)) (bodies i)"
    by (auto simp: separate_def list_all_iff)
  with fh(2) have "map (\<lambda>(a, sh). heap h' ! a) (bodies i) = map (\<lambda>(a, sh). heap h ! a) (bodies i)"
    by (auto simp: list_all_iff)
  with fi fh w dis show ?thesis by simp
qed

theorem resize_keeps_bodies_witness:
  "\<exists>i0 h1 i h r i' h'.
     new_SVGPhysics doc_ex toy_matter ''#container'' ''svg'' (app_custom 1000) host_ex
       = (Inr i0, h1) \<and>
     run [CallPause, Resize 1024 768, TimeoutFires] (snd (p5_start toy_matter i0 h1)) = (i, h) \<and>
     handleResize canvas_ex i h = (r, i', h') \<and>
     length (bodies i) = 3 \<and> bodies i' = bodies i \<and>
     map (\<lambda>(a, sh). heap h' ! a) (bodies i') = map (\<lambda>(a, sh). heap h ! a) (bodies i)"
proof -
  let ?I0 = "fst (snd built_ex)" and ?H1 = "snd (snd built_ex)"
  let ?S = "run [CallPause, Resize 1024 768, TimeoutFires] (snd (p5_start toy_matter ?I0 ?H1))"
  let ?R = "handleResize canvas_ex (fst ?S) (snd ?S)"
  have s: "?S = (fst ?S, snd ?S)" by simp
  have r: "?R = (fst ?R, fst (snd ?R), snd (snd ?R))" by simp
  have n: "length (bodies (fst ?S)) = 3" by code_simp
  note t = resize_keeps_bodies[OF built_ex_new s r]
  from t have a: "bodies (fst (snd ?R)) = bodies (fst ?S)" by (rule conjunct1)
  from t have b: "map (\<lambda>(a, sh). heap (snd (snd ?R)) ! a) (bodies (fst (snd ?R)))
       = map (\<lambda>(a, sh). heap (snd ?S) ! a) (bodies (fst ?S))"
    by (rule conjunct1[OF conjunct2])
  from built_ex_new s r n a b show ?thesis by (intro exI conjI)
qed

section \<open>Resizing and the walls\<close>

text \<open>
  C2. The resize handler is meant to put the floor, the left wall and the right wall at
  the edges of the new viewport. On the page of \<^verbatim>\<open>app.js\<close>, set up at 800 by 600 and then
  resized to 800 by 1000, once the debounced handler has run the canvas is resized, the
  floor moves to (400, 1050) and the right wall to (850, 500), where \<^verbatim>\<open>#createWalls\<close>
  would put them; the left wall stays at (-50, 300), not at (-50, 500), and reaches down
  to 900 only: the handler sets the position of \<^verbatim>\<open>walls[0]\<close> and \<^verbatim>\<open>walls[2]\<close> and never
  of \<^verbatim>\<open>walls[1]\<close>.
\<close>

theorem resize_leaves_left_wall:
  "(case ready_ex of
      (r, i, h) \<Rightarrow>
        (case run [Resize 800 1000, TimeoutFires] (i, h) of
           (i', h') \<Rightarrow>
             r = Inr () \<and>
             map (\<lambda>a. position (heap h ! a)) (walls i)
               = [pt 400 650, pt (- 50) 300, pt 850 300] \<and>
             map_option height (p5 i') = Some (Fin 1000) \<and>
             map (\<lambda>a. heap h' ! a) (walls i')
               = [rectangle (Fin 400) (Fin 1050) (Fin 800) (Fin 100) True,
                  rectangle (Fin (- 50)) (Fin 300) (Fin 100) (Fin 1200) True,
                  rectangle (Fin 850) (Fin 500) (Fin 100) (Fin 1200) True] \<and>
             map vy (vertices (heap h' ! (walls i' ! 1)))
               = [Fin (- 300), Fin (- 300), Fin 900, Fin 900])) \<and>
   wall_bodies (Fin 800) (Fin 1000)
     = [rectangle (Fin 400) (Fin 1050) (Fin 800) (Fin 100) True,
        rectangle (Fin (- 50)) (Fin 500) (Fin 100) (Fin 2000) True,
        rectangle (Fin 850) (Fin 500) (Fin 100) (Fin 2000) True]"
  by code_simp


end
